theory Spec2Isabelle
  imports Complex_Main
begin

section \<open>Python values\<close>

text \<open>
  The payloads the player builds and the bodies the node receives are Python dicts of
  JSON values. A dict is an association list in insertion order: assigning to a key that
  is present replaces the value in place, assigning to a new key appends it. Python's
  floats are idealised as rationals (\<open>JNum\<close>); \<open>x / 1000\<close> is true division.
\<close>

datatype json =
    JNull
  | JBool bool
  | JInt int
  | JNum rat
  | JStr string
  | JList "json list"
  | JObj "(string \<times> json) list"

type_synonym pydict = "(string \<times> json) list"

text \<open>Every \<open>raise\<close> of the sources and every failure of the interpreter is a value.\<close>

datatype error =
    AttributeError
  | TypeError
  | KeyError
  | IndexError
  | ValueError
  | NameError
  | InvalidIdentifier
  | FilterAlreadyExists
  | LavalinkException
  | LoadTrackError
  | HostError
  | TimestampOutOfRange

text \<open>
  A coroutine that mutates its object returns the exception it raised, if any, together
  with the state it left behind: what was assigned before the \<open>raise\<close> stays assigned.
\<close>

type_synonym 's outcome = "error option \<times> 's"

text \<open>Truth value testing, as \<open>if x:\<close> does it.\<close>

fun truthy :: "json \<Rightarrow> bool" where
  "truthy JNull = False"
| "truthy (JBool b) = b"
| "truthy (JInt i) = (i \<noteq> 0)"
| "truthy (JNum r) = (r \<noteq> 0)"
| "truthy (JStr s) = (s \<noteq> [])"
| "truthy (JList xs) = (xs \<noteq> [])"
| "truthy (JObj kvs) = (kvs \<noteq> [])"

text \<open>\<open>d.get(k)\<close>, \<open>k in d.keys()\<close>, \<open>d[k] = v\<close> and \<open>d.keys()\<close>.\<close>

definition dict_get :: "(string \<times> 'v) list \<Rightarrow> string \<Rightarrow> 'v option" where
  "dict_get d k = map_of d k"

definition dict_keys :: "(string \<times> 'v) list \<Rightarrow> string set" where
  "dict_keys d = set (map fst d)"

fun dict_set :: "string \<Rightarrow> 'v \<Rightarrow> (string \<times> 'v) list \<Rightarrow> (string \<times> 'v) list" where
  "dict_set k v [] = [(k, v)]"
| "dict_set k v ((k', v') # d) = (if k' = k then (k, v) # d else (k', v') # dict_set k v d)"

text \<open>\<open>str(n)\<close> of an integer: its decimal digits, with a sign when negative.\<close>

definition digit_char :: "nat \<Rightarrow> char" where
  "digit_char d = ''0123456789'' ! d"

fun str_nat :: "nat \<Rightarrow> string" where
  "str_nat n = (if n < 10 then [digit_char n] else str_nat (n div 10) @ [digit_char (n mod 10)])"

declare str_nat.simps [simp del]

definition str_int :: "int \<Rightarrow> string" where
  "str_int i = (if i < 0 then CHR ''-'' # str_nat (nat (- i)) else str_nat (nat i))"

text \<open>A number as \<open>/\<close> accepts it (\<open>bool\<close> is a subclass of \<open>int\<close>); anything else is a TypeError.\<close>

fun as_number :: "json \<Rightarrow> rat option" where
  "as_number (JInt i) = Some (of_int i)"
| "as_number (JNum r) = Some r"
| "as_number (JBool b) = Some (if b then 1 else 0)"
| "as_number _ = None"

section \<open>The collaborators of the player\<close>

text \<open>
  The host's voice channel (\<open>channel.id\<close>, \<open>channel.guild.id\<close>), the track value object
  (\<open>id\<close>, \<open>title\<close>, \<open>length\<close> in seconds) and a filter (\<open>name\<close>, \<open>payload\<close>) are
  declared outside these sources; the records hold the attributes the player reads.
\<close>

record voice_channel =
  chan_id :: int
  guild_id :: int

record track =
  tr_id :: string
  tr_title :: string
  tr_length :: rat

record lavapy_filter =
  f_name :: string
  f_payload :: json

subsection \<open>The node\<close>

text \<open>
  The websocket of a node: whether its connection is open, the payloads written to it so
  far, and whether its listener task was cancelled. A node holds the list of attached
  players (object identities) and its websocket, \<open>None\<close> until \<open>Node.connect\<close>.
\<close>

type_synonym pid = nat

record websocket =
  conn_open :: bool
  sent :: "pydict list"
  listener_cancelled :: bool

record node =
  players :: "pid list"
  websocket :: "websocket option"

text \<open>
  \<open>Node._send\<close>: \<open>await self._websocket.connection.send_json(payload)\<close>. Without a
  websocket the attribute access on \<open>None\<close> raises; the connection records the payload.
\<close>

definition Node__send :: "pydict \<Rightarrow> node \<Rightarrow> node outcome" where
  "Node__send payload nd =
     (case websocket nd of
        None \<Rightarrow> (Some AttributeError, nd)
      | Some ws \<Rightarrow> (None, nd\<lparr>websocket := Some (ws\<lparr>sent := sent ws @ [payload]\<rparr>)\<rparr>))"

text \<open>
  Every name an instance of \<open>Node\<close> answers to: the attributes \<open>__init__\<close> assigns, and
  the properties and coroutines of the class body, in the order of node.py. The class has
  no base class and no \<open>__getattr__\<close>; the names \<open>object\<close> adds are all of the form
  \<open>__x__\<close>.
\<close>

datatype member = Field | Property | Coroutine

definition Node_members :: "(string \<times> member) list" where
  "Node_members =
     [(''_client'', Field), (''_host'', Field), (''_port'', Field), (''_password'', Field),
      (''_region'', Field), (''_spotifyClient'', Field), (''_identifier'', Field),
      (''_players'', Field), (''_stats'', Field), (''_session'', Field), (''_websocket'', Field),
      (''client'', Property), (''host'', Property), (''port'', Property),
      (''password'', Property), (''region'', Property), (''spotifyClient'', Property),
      (''identifier'', Property), (''players'', Property), (''stats'', Property),
      (''session'', Property),
      (''connect'', Coroutine), (''disconnect'', Coroutine), (''_getData'', Coroutine),
      (''_send'', Coroutine), (''buildTrack'', Coroutine), (''getTracks'', Coroutine),
      (''processPartialResource'', Coroutine)]"

text \<open>
  The player writes \<open>await self.node.send(payload)\<close>. The attribute \<open>send\<close> is looked up
  on the node first; a name the node does not have raises AttributeError before anything
  is called. A name that resolves reaches the coroutine that writes to the websocket.
\<close>

definition Node_send :: "pydict \<Rightarrow> node \<Rightarrow> node outcome" where
  "Node_send payload nd =
     (case map_of Node_members ''send'' of
        None \<Rightarrow> (Some AttributeError, nd)
      | Some m \<Rightarrow> Node__send payload nd)"

section \<open>The player\<close>

text \<open>
  The attributes \<open>Player.__init__\<close> assigns. \<open>paused\<close> holds whatever was last assigned to
  \<open>self._paused\<close>, a Python value. The timestamps are seconds as rationals.
\<close>

record player =
  channel :: voice_channel
  track :: "track option"
  volume :: int
  filters :: "(string \<times> lavapy_filter) list"
  voiceState :: pydict
  connected :: bool
  paused :: json
  lastUpdateTime :: "rat option"
  lastPosition :: "rat option"

definition new_player :: "voice_channel \<Rightarrow> player" where
  "new_player ch =
     \<lparr>channel = ch, track = None, volume = 100, filters = [], voiceState = [],
      connected = False, paused = JBool False, lastUpdateTime = None, lastPosition = None\<rparr>"

definition guildId :: "player \<Rightarrow> json" where
  "guildId p = JStr (str_int (guild_id (channel p)))"

definition isConnected :: "player \<Rightarrow> bool" where
  "isConnected p = connected p"

definition isPlaying :: "player \<Rightarrow> bool" where
  "isPlaying p = (isConnected p \<and> track p \<noteq> None)"

definition isPaused :: "player \<Rightarrow> json" where
  "isPaused p = paused p"

subsection \<open>pause and resume\<close>

text \<open>
  \<open>_togglePause(pause)\<close> rebinds its parameter to the payload dict, assigns that name to
  \<open>self._paused\<close>, and then sends it.
\<close>

definition pause_payload :: "bool \<Rightarrow> player \<Rightarrow> pydict" where
  "pause_payload b p = [(''op'', JStr ''pause''), (''guildId'', guildId p), (''pause'', JBool b)]"

definition togglePause :: "bool \<Rightarrow> player \<Rightarrow> node \<Rightarrow> (player \<times> node) outcome" where
  "togglePause b p nd =
     (let pause = pause_payload b p;
          p' = p\<lparr>paused := JObj pause\<rparr>;
          (e, nd') = Node_send pause nd
      in (e, p', nd'))"

definition pause :: "player \<Rightarrow> node \<Rightarrow> (player \<times> node) outcome" where
  "pause p nd = togglePause True p nd"

definition resume :: "player \<Rightarrow> node \<Rightarrow> (player \<times> node) outcome" where
  "resume p nd = togglePause False p nd"

subsection \<open>stop and seek\<close>

text \<open>
  \<open>stop\<close> keeps the old track in \<open>tempTrack\<close>, clears \<open>_track\<close>, sends, and then formats
  \<open>tempTrack.title\<close> into its log line; the f-string is evaluated before the logger is
  called, so a \<open>tempTrack\<close> that is \<open>None\<close> raises there.
\<close>

definition stop_payload :: "player \<Rightarrow> pydict" where
  "stop_payload p = [(''op'', JStr ''stop''), (''guildId'', guildId p)]"

definition stop :: "player \<Rightarrow> node \<Rightarrow> (player \<times> node) outcome" where
  "stop p nd =
     (let tempTrack = track p;
          p' = p\<lparr>track := None\<rparr>;
          (e, nd') = Node_send (stop_payload p) nd
      in case e of
           Some err \<Rightarrow> (Some err, p', nd')
         | None \<Rightarrow>
             (case tempTrack of
                None \<Rightarrow> (Some AttributeError, p', nd')
              | Some t \<Rightarrow> (None, p', nd')))"

text \<open>
  \<open>seek\<close> reads \<open>self.track.length\<close> first (an AttributeError without a track), raises
  \<open>InvalidIdentifier\<close> when the position is larger, and sends otherwise.
\<close>

definition seek_payload :: "int \<Rightarrow> player \<Rightarrow> pydict" where
  "seek_payload position p =
     [(''op'', JStr ''seek''), (''guildId'', guildId p), (''position'', JInt position)]"

definition seek :: "int \<Rightarrow> player \<Rightarrow> node \<Rightarrow> (player \<times> node) outcome" where
  "seek position p nd =
     (case track p of
        None \<Rightarrow> (Some AttributeError, p, nd)
      | Some t \<Rightarrow>
          if of_int position > tr_length t then (Some InvalidIdentifier, p, nd)
          else (let (e, nd') = Node_send (seek_payload position p) nd in (e, p, nd')))"

subsection \<open>Filters\<close>

text \<open>
  \<open>_updateFilters\<close> starts from \<open>op\<close>, \<open>guildId\<close> and \<open>volume / 100\<close> and assigns every
  applied filter's payload under the filter's name, in the order of the filter dict.
\<close>

definition filters_payload :: "player \<Rightarrow> pydict" where
  "filters_payload p =
     fold (\<lambda>(key, value) acc. dict_set (f_name value) (f_payload value) acc) (filters p)
       [(''op'', JStr ''filters''), (''guildId'', guildId p),
        (''volume'', JNum (of_int (volume p) / 100))]"

definition updateFilters :: "player \<Rightarrow> node \<Rightarrow> (player \<times> node) outcome" where
  "updateFilters p nd = (let (e, nd') = Node_send (filters_payload p) nd in (e, p, nd'))"

definition addFilter :: "lavapy_filter \<Rightarrow> player \<Rightarrow> node \<Rightarrow> (player \<times> node) outcome" where
  "addFilter f p nd =
     (let name = f_name f
      in if f_name f \<in> dict_keys (filters p) then (Some FilterAlreadyExists, p, nd)
         else updateFilters (p\<lparr>filters := dict_set name f (filters p)\<rparr>) nd)"

subsection \<open>The voice handshake\<close>

text \<open>
  \<open>_sendVoiceUpdate\<close> sends when the key set of the buffer is exactly
  \<open>{sessionId, event}\<close>, and does nothing otherwise.
\<close>

definition voiceUpdate_payload :: "json \<Rightarrow> json \<Rightarrow> player \<Rightarrow> pydict" where
  "voiceUpdate_payload sid ev p =
     [(''op'', JStr ''voiceUpdate''), (''guildId'', guildId p), (''sessionId'', sid),
      (''event'', ev)]"

definition sendVoiceUpdate :: "player \<Rightarrow> node \<Rightarrow> (player \<times> node) outcome" where
  "sendVoiceUpdate p nd =
     (if {''sessionId'', ''event''} = dict_keys (voiceState p) then
        (case dict_get (voiceState p) ''sessionId'' of
           None \<Rightarrow> (Some KeyError, p, nd)
         | Some sid \<Rightarrow>
             (case dict_get (voiceState p) ''event'' of
                None \<Rightarrow> (Some KeyError, p, nd)
              | Some ev \<Rightarrow>
                  (let (e, nd') = Node_send (voiceUpdate_payload sid ev p) nd in (e, p, nd'))))
      else (None, p, nd))"

definition on_voice_server_update :: "pydict \<Rightarrow> player \<Rightarrow> node \<Rightarrow> (player \<times> node) outcome" where
  "on_voice_server_update data p nd =
     sendVoiceUpdate (p\<lparr>voiceState := dict_set ''event'' (JObj data) (voiceState p)\<rparr>) nd"

text \<open>
  \<open>on_voice_state_update\<close> stores the session id, then reads the target channel id. A
  \<open>None\<close> id clears the buffer and returns. Otherwise the channel is looked up in the
  client's cache (a parameter: the host's \<open>get_channel\<close>); the host compares channels by
  id, and \<open>None\<close> differs from every channel, after which \<open>channel.id\<close> in the log line
  raises on \<open>None\<close>.
\<close>

definition on_voice_state_update ::
  "(json \<Rightarrow> voice_channel option) \<Rightarrow> pydict \<Rightarrow> player \<Rightarrow> node \<Rightarrow> (player \<times> node) outcome" where
  "on_voice_state_update get_channel data p nd =
     (case dict_get data ''session_id'' of
        None \<Rightarrow> (Some KeyError, p, nd)
      | Some sid \<Rightarrow>
          (let p1 = p\<lparr>voiceState := dict_set ''sessionId'' sid (voiceState p)\<rparr>
           in case dict_get data ''channel_id'' of
                None \<Rightarrow> (Some KeyError, p1, nd)
              | Some channelID \<Rightarrow>
                  if channelID = JNull then (None, p1\<lparr>voiceState := []\<rparr>, nd)
                  else
                    (case get_channel channelID of
                       None \<Rightarrow> (Some AttributeError, p1, nd)
                     | Some ch \<Rightarrow>
                         sendVoiceUpdate
                           (if chan_id ch \<noteq> chan_id (channel p1) then p1\<lparr>channel := ch\<rparr> else p1)
                           nd)))"

subsection \<open>The position snapshot\<close>

text \<open>
  player.py binds the global name \<open>datetime\<close> twice: \<open>import datetime\<close> (line 26) binds
  the module, \<open>from datetime import datetime, timezone\<close> (line 28) binds the class over
  it. A name denotes its last binding. Of the attributes of the module and of the two
  classes, the ones the player asks for are listed; the class \<open>datetime\<close> has no attribute
  called \<open>datetime\<close>.
\<close>

datatype pyglobal =
    DatetimeModule
  | DatetimeClass
  | TimezoneClass
  | NowMethod
  | FromtimestampMethod
  | UtcZone

definition player_imports :: "(string \<times> pyglobal) list" where
  "player_imports =
     [(''datetime'', DatetimeModule), (''datetime'', DatetimeClass), (''timezone'', TimezoneClass)]"

definition player_global :: "string \<Rightarrow> error + pyglobal" where
  "player_global name =
     (case map_of (rev player_imports) name of None \<Rightarrow> Inl NameError | Some g \<Rightarrow> Inr g)"

fun py_getattr :: "pyglobal \<Rightarrow> string \<Rightarrow> error + pyglobal" where
  "py_getattr DatetimeModule a =
     (if a = ''datetime'' then Inr DatetimeClass
      else if a = ''timezone'' then Inr TimezoneClass
      else Inl AttributeError)"
| "py_getattr DatetimeClass a =
     (if a = ''now'' then Inr NowMethod
      else if a = ''fromtimestamp'' then Inr FromtimestampMethod
      else Inl AttributeError)"
| "py_getattr TimezoneClass a = (if a = ''utc'' then Inr UtcZone else Inl AttributeError)"
| "py_getattr _ a = Inl AttributeError"

definition and_then :: "error + 'a \<Rightarrow> ('a \<Rightarrow> error + 'b) \<Rightarrow> error + 'b" where
  "and_then r f = (case r of Inl e \<Rightarrow> Inl e | Inr x \<Rightarrow> f x)"

text \<open>
  \<open>datetime.fromtimestamp(t, timezone.utc)\<close>: a datetime holds the years 1 to 9999, so
  the timestamp must lie from -62135596800 (the first second of year 1) to below
  253402300800 (the first second of year 10000). Outside, the call raises (a ValueError,
  an OverflowError or an OSError, by size and platform: one value here) and nothing is
  stored.
\<close>

definition fromtimestamp :: "rat \<Rightarrow> error + rat" where
  "fromtimestamp t =
     (if - 62135596800 \<le> t \<and> t < 253402300800 then Inr t else Inl TimestampOutOfRange)"

text \<open>
  \<open>_updateState\<close>: \<open>state.get("state")\<close>, then \<open>datetime.fromtimestamp(time / 1000, utc)\<close>
  into \<open>_lastUpdateTime\<close>, then \<open>position / 1000\<close> (0 when the key is absent) into
  \<open>_lastPosition\<close>. \<open>.get\<close> on anything but a dict is an AttributeError; dividing anything
  but a number is a TypeError.
\<close>

definition updateState :: "pydict \<Rightarrow> player \<Rightarrow> player outcome" where
  "updateState raw p =
     (case dict_get raw ''state'' of
        Some (JObj state) \<Rightarrow>
          (case and_then (player_global ''datetime'') (\<lambda>g. py_getattr g ''fromtimestamp'') of
             Inl e \<Rightarrow> (Some e, p)
           | Inr m \<Rightarrow>
               (case Option.bind (dict_get state ''time'') as_number of
                  None \<Rightarrow> (Some TypeError, p)
                | Some ms \<Rightarrow>
                    (case fromtimestamp (ms / 1000) of
                       Inl e \<Rightarrow> (Some e, p)
                     | Inr t \<Rightarrow>
                         (let p1 = p\<lparr>lastUpdateTime := Some t\<rparr>
                          in case as_number
                                    (case dict_get state ''position'' of
                                       None \<Rightarrow> JInt 0
                                     | Some v \<Rightarrow> v) of
                               None \<Rightarrow> (Some TypeError, p1)
                             | Some pos \<Rightarrow> (None, p1\<lparr>lastPosition := Some (pos / 1000)\<rparr>)))))
      | _ \<Rightarrow> (Some AttributeError, p))"

text \<open>
  \<open>position\<close>, read at clock time \<open>now\<close> (seconds). Not playing: 0. Paused (the stored
  value is true when tested): \<open>min(_lastPosition, track.length)\<close>. Otherwise
  \<open>datetime.datetime.now(timezone.utc) - _lastUpdateTime\<close> is added first. \<open>min\<close> and
  \<open>-\<close> and \<open>+\<close> with \<open>None\<close> are TypeErrors.
\<close>

definition position :: "rat \<Rightarrow> player \<Rightarrow> error + rat" where
  "position now p =
     (if \<not> isPlaying p then Inr 0
      else
        (case track p of
           None \<Rightarrow> Inl AttributeError
         | Some t \<Rightarrow>
             if truthy (isPaused p) then
               (case lastPosition p of
                  None \<Rightarrow> Inl TypeError
                | Some lp \<Rightarrow> Inr (min lp (tr_length t)))
             else
               and_then (player_global ''datetime'') (\<lambda>g.
               and_then (py_getattr g ''datetime'') (\<lambda>cls.
               and_then (py_getattr cls ''now'') (\<lambda>m.
                 (case lastUpdateTime p of
                    None \<Rightarrow> Inl TypeError
                  | Some t0 \<Rightarrow>
                      (case lastPosition p of
                         None \<Rightarrow> Inl TypeError
                       | Some lp \<Rightarrow> Inr (min (lp + (now - t0)) (tr_length t)))))))))"

section \<open>Disconnecting\<close>

text \<open>
  Players are objects the node's list refers to, so a node and its players live in one
  store. \<open>raises pid\<close> says whether the host's \<open>guild.change_voice_state\<close> raises for
  that player (the host is outside these sources).

  \<open>Player.disconnect\<close>: the host call, then \<open>self.node.players.remove(self)\<close> (a
  ValueError when the player is not in the list), then \<open>_connected = False\<close>.
\<close>

record world =
  the_node :: node
  the_players :: "pid \<Rightarrow> player"

definition Player_disconnect :: "(pid \<Rightarrow> bool) \<Rightarrow> pid \<Rightarrow> world \<Rightarrow> world outcome" where
  "Player_disconnect raises self w =
     (if raises self then (Some HostError, w)
      else if self \<notin> set (players (the_node w)) then (Some ValueError, w)
      else
        (None,
         w\<lparr>the_node := (the_node w)\<lparr>players := remove1 self (players (the_node w))\<rparr>,
           the_players := (the_players w)(self := (the_players w self)\<lparr>connected := False\<rparr>)\<rparr>))"

text \<open>
  \<open>for player in self.players: await player.disconnect(force=force)\<close>. A list iterator
  holds an index into the live list: each round it stops if the index has reached the
  current length, and otherwise yields the element at the index and advances. The list
  it walks is the one \<open>Player.disconnect\<close> removes from. An exception leaves the loop.
\<close>

function disconnect_players :: "(pid \<Rightarrow> bool) \<Rightarrow> nat \<Rightarrow> world \<Rightarrow> world outcome" where
  "disconnect_players raises i w =
     (if i < length (players (the_node w)) then
        (case Player_disconnect raises (players (the_node w) ! i) w of
           (Some e, w') \<Rightarrow> (Some e, w')
         | (None, w') \<Rightarrow> disconnect_players raises (Suc i) w')
      else (None, w))"
  by pat_completeness auto
termination
  apply (relation "measure (\<lambda>(raises, i, w). length (players (the_node w)) - i)")
   apply simp
  apply (auto simp: Player_disconnect_def length_remove1 split: if_splits)
  done

declare disconnect_players.simps [simp del]

text \<open>
  \<open>Node.disconnect\<close>: the loop, then \<open>self._websocket.listener.cancel()\<close> and
  \<open>await self._websocket.connection.close()\<close>; without a websocket the attribute access
  on \<open>None\<close> raises.
\<close>

definition Node_disconnect :: "(pid \<Rightarrow> bool) \<Rightarrow> world \<Rightarrow> world outcome" where
  "Node_disconnect raises w =
     (case disconnect_players raises 0 w of
        (Some e, w') \<Rightarrow> (Some e, w')
      | (None, w') \<Rightarrow>
          (case websocket (the_node w') of
             None \<Rightarrow> (Some AttributeError, w')
           | Some ws \<Rightarrow>
               (None,
                w'\<lparr>the_node := (the_node w')
                     \<lparr>websocket := Some (ws\<lparr>listener_cancelled := True, conn_open := False\<rparr>)\<rparr>\<rparr>)))"

section \<open>Resolving tracks\<close>

text \<open>
  \<open>Node.getTracks\<close> as a function of what \<open>_getData\<close> returned: the response status and
  the decoded body. \<open>cls\<close> is the resource class the caller passes and \<open>trackCls\<close> its
  \<open>_trackCls\<close>; a class is called with an identifier and either an info dict or a list of
  tracks. The function returns \<open>None\<close>, one object, or a list.
\<close>

datatype 't arg = Info json | Tracks "'t list"

datatype 'r loaded = NoResult | Single 'r | Several "'r list"

text \<open>\<open>x.get(k)\<close>, \<open>x[k]\<close> with a string key, \<open>x[0]\<close>, and iteration, on any JSON value.\<close>

fun py_get :: "json \<Rightarrow> string \<Rightarrow> error + json option" where
  "py_get (JObj d) k = Inr (dict_get d k)"
| "py_get _ k = Inl AttributeError"

fun subscript :: "json \<Rightarrow> string \<Rightarrow> error + json" where
  "subscript (JObj d) k = (case dict_get d k of None \<Rightarrow> Inl KeyError | Some v \<Rightarrow> Inr v)"
| "subscript _ k = Inl TypeError"

fun first_item :: "json \<Rightarrow> error + json" where
  "first_item (JList []) = Inl IndexError"
| "first_item (JList (x # xs)) = Inr x"
| "first_item (JStr []) = Inl IndexError"
| "first_item (JStr (c # cs)) = Inr (JStr [c])"
| "first_item (JObj d) = Inl KeyError"
| "first_item _ = Inl TypeError"

fun iterate :: "json \<Rightarrow> error + json list" where
  "iterate (JList xs) = Inr xs"
| "iterate (JObj d) = Inr (map (\<lambda>(k, v). JStr k) d)"
| "iterate (JStr s) = Inr (map (\<lambda>c. JStr [c]) s)"
| "iterate _ = Inl TypeError"

text \<open>A list comprehension: the elements in order, stopping at the first that raises.\<close>

fun comprehension :: "(json \<Rightarrow> error + 'a) \<Rightarrow> json list \<Rightarrow> error + 'a list" where
  "comprehension f [] = Inr []"
| "comprehension f (x # xs) =
     and_then (f x) (\<lambda>y. and_then (comprehension f xs) (\<lambda>ys. Inr (y # ys)))"

definition construct :: "(json \<Rightarrow> json \<Rightarrow> 'a) \<Rightarrow> json \<Rightarrow> error + 'a" where
  "construct c element =
     and_then (subscript element ''track'') (\<lambda>t.
     and_then (subscript element ''info'') (\<lambda>i. Inr (c t i)))"

definition getTracks ::
  "(json \<Rightarrow> 't arg \<Rightarrow> 'r) \<Rightarrow> (json \<Rightarrow> json \<Rightarrow> 't) \<Rightarrow> int \<Rightarrow> json \<Rightarrow> error + 'r loaded" where
  "getTracks cls trackCls status data =
     (if status \<noteq> 200 then Inl LavalinkException
      else
        and_then (py_get data ''loadType'') (\<lambda>loadType.
          if loadType = Some (JStr ''LOAD_FAILED'') then Inl LoadTrackError
          else if loadType = Some (JStr ''NO_MATCHES'') then Inr NoResult
          else if loadType = Some (JStr ''TRACK_LOADED'') then
            and_then (subscript data ''tracks'') (\<lambda>tracks.
            and_then (first_item tracks) (\<lambda>trackInfo.
            and_then (construct (\<lambda>t i. cls t (Info i)) trackInfo) (\<lambda>r. Inr (Single r))))
          else if loadType = Some (JStr ''SEARCH_RESULT'') then
            and_then (subscript data ''tracks'') (\<lambda>tracks.
            and_then (iterate tracks) (\<lambda>elements.
            and_then (comprehension (construct (\<lambda>t i. cls t (Info i))) elements) (\<lambda>rs.
              Inr (Several rs))))
          else if loadType = Some (JStr ''PLAYLIST_LOADED'') then
            and_then (subscript data ''playlistInfo'') (\<lambda>playlistInfo.
            and_then (subscript playlistInfo ''name'') (\<lambda>name.
            and_then (subscript data ''tracks'') (\<lambda>tracks.
            and_then (iterate tracks) (\<lambda>elements.
            and_then (comprehension (construct trackCls) elements) (\<lambda>ts.
              Inr (Single (cls name (Tracks ts))))))))
          else Inr NoResult))"

section \<open>Example states\<close>

text \<open>A connected websocket that has sent nothing.\<close>

definition fresh_websocket :: websocket where
  "fresh_websocket = \<lparr>conn_open = True, sent = [], listener_cancelled = False\<rparr>"

text \<open>Two connected players, 0 and 1, attached to one node; the host fails for player 0.\<close>

definition example_world :: world where
  "example_world =
     \<lparr>the_node = \<lparr>players = [0, 1], websocket = Some fresh_websocket\<rparr>,
      the_players = (\<lambda>pid. (new_player \<lparr>chan_id = 10 + int pid, guild_id = 1\<rparr>)\<lparr>connected := True\<rparr>)\<rparr>"




text \<open>Bodies of \<open>/loadtracks\<close> responses, and a resource class that records its arguments.\<close>

definition entry :: "string \<Rightarrow> string \<Rightarrow> json" where
  "entry t title = JObj [(''track'', JStr t), (''info'', JObj [(''title'', JStr title)])]"

definition search_body :: json where
  "search_body =
     JObj [(''loadType'', JStr ''SEARCH_RESULT''),
           (''tracks'', JList [entry ''QAAB'' ''second'', entry ''QAAA'' ''first''])]"

definition track_body :: json where
  "track_body =
     JObj [(''loadType'', JStr ''TRACK_LOADED''), (''tracks'', JList [entry ''QAAA'' ''first''])]"

definition playlist_body :: json where
  "playlist_body =
     JObj [(''loadType'', JStr ''PLAYLIST_LOADED''),
           (''playlistInfo'', JObj [(''name'', JStr ''mix''), (''selectedTrack'', JInt 0)]),
           (''tracks'', JList [entry ''QAAB'' ''second'', entry ''QAAA'' ''first''])]"

definition unknown_body :: json where
  "unknown_body = JObj [(''loadType'', JStr ''EMPTY''), (''tracks'', JList [])]"

definition Resource :: "json \<Rightarrow> (json \<times> json) arg \<Rightarrow> json \<times> (json \<times> json) arg" where
  "Resource ident a = (ident, a)"

definition TrackOf :: "json \<Rightarrow> json \<Rightarrow> json \<times> json" where
  "TrackOf ident info = (ident, info)"

section \<open>Properties\<close>

subsection \<open>Sending\<close>

text \<open>
  The class \<open>Node\<close> declares \<open>_send\<close> and no \<open>send\<close>: every \<open>self.node.send(...)\<close> of
  the player raises AttributeError and leaves the node as it was.
\<close>

lemma Node_send_raises: "Node_send payload nd = (Some AttributeError, nd)"
  by (simp add: Node_send_def Node_members_def)

lemma Node__send_appends:
  "websocket nd = Some ws \<Longrightarrow>
   Node__send payload nd = (None, nd\<lparr>websocket := Some (ws\<lparr>sent := sent ws @ [payload]\<rparr>)\<rparr>)"
  by (simp add: Node__send_def)

subsection \<open>pause and resume\<close>

text \<open>
  C1. After \<open>resume()\<close> the value \<open>isPaused\<close> returns is the payload dict that
  \<open>_togglePause\<close> stored: it is not \<open>False\<close>, and it is true wherever it is tested. The
  flag is assigned before the send, so this holds although the send raises.
\<close>

theorem C1_resume_leaves_isPaused_truthy:
  "isPaused (fst (snd (resume p nd))) = JObj (pause_payload False p)
   \<and> isPaused (fst (snd (resume p nd))) \<noteq> JBool False
   \<and> truthy (isPaused (fst (snd (resume p nd))))"
  by (simp add: resume_def togglePause_def isPaused_def pause_payload_def Let_def
      split: prod.splits)

lemma pause_sets_flag_before_send:
  "paused (fst (snd (pause p nd))) = JObj (pause_payload True p)"
  by (simp add: pause_def togglePause_def Let_def split: prod.splits)

subsection \<open>stop\<close>

text \<open>
  C3. \<open>stop()\<close> on a player without a track leaves the track cleared, but the call ends
  in an AttributeError and the node has been sent nothing.
\<close>

theorem C3_stop_without_track_raises:
  "fst (stop (p\<lparr>track := None\<rparr>) nd) = Some AttributeError
   \<and> track (fst (snd (stop (p\<lparr>track := None\<rparr>) nd))) = None
   \<and> snd (snd (stop (p\<lparr>track := None\<rparr>) nd)) = nd"
  by (simp add: stop_def Node_send_raises Let_def)

lemma stop_with_track_raises:
  "stop p nd = (Some AttributeError, p\<lparr>track := None\<rparr>, nd)"
  by (simp add: stop_def Node_send_raises Let_def)

subsection \<open>The voice handshake\<close>

text \<open>
  C4. A fresh player receives a voice-server update and then a voice-state update for
  its own channel. Both slots of the buffer are filled, the handler ends in an
  AttributeError, and the node has been sent no frame.
\<close>

theorem C4_completed_pair_sends_nothing:
  "on_voice_state_update (\<lambda>c. Some ch)
      [(''session_id'', JStr sid), (''channel_id'', JInt (chan_id ch))]
      (fst (snd (on_voice_server_update ev (new_player ch) nd))) nd
   = (Some AttributeError,
      (new_player ch)\<lparr>voiceState := [(''event'', JObj ev), (''sessionId'', JStr sid)]\<rparr>,
      nd)"
  by (simp add: on_voice_state_update_def on_voice_server_update_def sendVoiceUpdate_def
      Node_send_raises new_player_def dict_keys_def dict_get_def Let_def insert_commute)

lemma lone_server_update_sends_nothing:
  "on_voice_server_update ev (new_player ch) nd
   = (None, (new_player ch)\<lparr>voiceState := [(''event'', JObj ev)]\<rparr>, nd)"
  by (simp add: on_voice_server_update_def sendVoiceUpdate_def new_player_def dict_keys_def)

lemma null_channel_clears_buffer:
  "on_voice_state_update get_channel [(''session_id'', sid), (''channel_id'', JNull)] p nd
   = (None, p\<lparr>voiceState := []\<rparr>, nd)"
  by (simp add: on_voice_state_update_def dict_get_def Let_def)

subsection \<open>seek\<close>

text \<open>
  C5. On a track of 10 seconds, \<open>seek(11)\<close> raises \<open>InvalidIdentifier\<close> and sends nothing;
  \<open>seek(5)\<close> ends in an AttributeError and the node has been sent no frame either.
\<close>

theorem C5_seek_in_range_sends_nothing:
  "seek 11 (p\<lparr>track := Some \<lparr>tr_id = ident, tr_title = title, tr_length = 10\<rparr>\<rparr>) nd
   = (Some InvalidIdentifier, p\<lparr>track := Some \<lparr>tr_id = ident, tr_title = title, tr_length = 10\<rparr>\<rparr>, nd)
   \<and> seek 5 (p\<lparr>track := Some \<lparr>tr_id = ident, tr_title = title, tr_length = 10\<rparr>\<rparr>) nd
   = (Some AttributeError, p\<lparr>track := Some \<lparr>tr_id = ident, tr_title = title, tr_length = 10\<rparr>\<rparr>, nd)"
  by (simp add: seek_def Node_send_raises)

lemma seek_beyond_length:
  "track p = Some t \<Longrightarrow> of_int pos > tr_length t \<Longrightarrow>
   seek pos p nd = (Some InvalidIdentifier, p, nd)"
  by (simp add: seek_def)

subsection \<open>addFilter\<close>

text \<open>
  C6. \<open>addFilter\<close> with a name that is not applied yet on a fresh player: the filter is
  inserted, the call ends in an AttributeError, and the node has been sent no frame.
\<close>

theorem C6_addFilter_fresh_name_sends_nothing:
  "addFilter \<lparr>f_name = ''timescale'', f_payload = pl\<rparr> (new_player ch) nd
   = (Some AttributeError,
      (new_player ch)\<lparr>filters := [(''timescale'', \<lparr>f_name = ''timescale'', f_payload = pl\<rparr>)]\<rparr>,
      nd)"
  by (simp add: addFilter_def updateFilters_def Node_send_raises new_player_def dict_keys_def
      Let_def)

lemma addFilter_applied_name:
  "f_name f \<in> dict_keys (filters p) \<Longrightarrow> addFilter f p nd = (Some FilterAlreadyExists, p, nd)"
  by (simp add: addFilter_def Let_def)

lemma filters_payload_fresh_player:
  "filters_payload ((new_player ch)\<lparr>filters := [(''timescale'', \<lparr>f_name = ''timescale'', f_payload = pl\<rparr>)]\<rparr>)
   = [(''op'', JStr ''filters''), (''guildId'', JStr (str_int (guild_id ch))),
      (''volume'', JNum 1), (''timescale'', pl)]"
  by (simp add: filters_payload_def new_player_def guildId_def)

subsection \<open>position\<close>

lemma datetime_is_the_class: "player_global ''datetime'' = Inr DatetimeClass"
  by (simp add: player_global_def player_imports_def)

lemma position_unpaused_raises:
  "connected p \<Longrightarrow> track p = Some t \<Longrightarrow> \<not> truthy (paused p) \<Longrightarrow>
   position now p = Inl AttributeError"
  by (simp add: position_def isPlaying_def isConnected_def isPaused_def and_then_def
      datetime_is_the_class)

lemma position_paused:
  "connected p \<Longrightarrow> track p = Some t \<Longrightarrow> truthy (paused p) \<Longrightarrow> lastPosition p = Some lp \<Longrightarrow>
   position now p = Inr (min lp (tr_length t))"
  by (simp add: position_def isPlaying_def isConnected_def isPaused_def)

text \<open>A snapshot stamped in year 10000 is refused and leaves the player as it was.\<close>

lemma updateState_out_of_range:
  "updateState [(''state'', JObj [(''time'', JInt 253402300800000), (''position'', JInt 0)])] p
   = (Some TimestampOutOfRange, p)"
  by (simp add: updateState_def fromtimestamp_def and_then_def datetime_is_the_class
      dict_get_def)

text \<open>
  C7. A connected player on a 60 second track that has never been paused processes a
  snapshot (server time 1000 s, position 10 s). Read 5 seconds later, \<open>position\<close> is an
  AttributeError, not a number.
\<close>

theorem C7_position_unpaused_raises:
  "updateState [(''state'', JObj [(''time'', JInt 1000000), (''position'', JInt 10000)])]
     ((new_player ch)\<lparr>connected := True,
        track := Some \<lparr>tr_id = ident, tr_title = title, tr_length = 60\<rparr>\<rparr>)
   = (None,
      (new_player ch)\<lparr>connected := True,
        track := Some \<lparr>tr_id = ident, tr_title = title, tr_length = 60\<rparr>,
        lastUpdateTime := Some 1000, lastPosition := Some 10\<rparr>)
   \<and> position 1005
      ((new_player ch)\<lparr>connected := True,
        track := Some \<lparr>tr_id = ident, tr_title = title, tr_length = 60\<rparr>,
        lastUpdateTime := Some 1000, lastPosition := Some 10\<rparr>)
   = Inl AttributeError"
  by (simp add: position_def updateState_def fromtimestamp_def new_player_def isPlaying_def
      isConnected_def isPaused_def and_then_def datetime_is_the_class dict_get_def)

text \<open>
  C9. A player that is not playing reads position 0. A playing player without a snapshot
  fails to read it, paused or not. With a snapshot (time \<open>t0\<close>, position \<open>lp\<close>) a paused
  player reads \<open>min lp length\<close>, but a player that is not paused still fails.
\<close>

theorem C9_position_with_snapshot_still_raises:
  "position now (p\<lparr>connected := False\<rparr>) = Inr 0
   \<and> position now (p\<lparr>track := None\<rparr>) = Inr 0
   \<and> position now (p\<lparr>connected := True, track := Some t, paused := JBool True,
        lastUpdateTime := None, lastPosition := None\<rparr>) = Inl TypeError
   \<and> position now (p\<lparr>connected := True, track := Some t, paused := JBool False,
        lastUpdateTime := None, lastPosition := None\<rparr>) = Inl AttributeError
   \<and> position now (p\<lparr>connected := True, track := Some t, paused := JBool True,
        lastUpdateTime := Some t0, lastPosition := Some lp\<rparr>) = Inr (min lp (tr_length t))
   \<and> position now (p\<lparr>connected := True, track := Some t, paused := JBool False,
        lastUpdateTime := Some t0, lastPosition := Some lp\<rparr>) = Inl AttributeError"
  by (simp add: position_def isPlaying_def isConnected_def isPaused_def and_then_def
      datetime_is_the_class)

subsection \<open>Node.disconnect\<close>


















text \<open>
  With no failure at all the loop still passes over players: in the example world the
  first round detaches player 0, the list is then \<open>[1]\<close>, and the next index is 1, past
  its end.
\<close>

lemma disconnect_passes_over_second_player:
  "fst (Node_disconnect (\<lambda>pid. False) example_world) = None
   \<and> players (the_node (snd (Node_disconnect (\<lambda>pid. False) example_world))) = [1]
   \<and> \<not> connected (the_players (snd (Node_disconnect (\<lambda>pid. False) example_world)) 0)
   \<and> connected (the_players (snd (Node_disconnect (\<lambda>pid. False) example_world)) 1)"
  by (simp add: Node_disconnect_def disconnect_players.simps Player_disconnect_def
      example_world_def fresh_websocket_def new_player_def)




subsection \<open>getTracks\<close>

text \<open>
  A list comprehension over elements that each hold \<open>track\<close> and \<open>info\<close> builds one object
  per element, in the order of the elements.
\<close>

lemma comprehension_construct:
  assumes "list_all2 (\<lambda>el (t, i). subscript el ''track'' = Inr t \<and> subscript el ''info'' = Inr i)
             els tis"
  shows "comprehension (construct c) els = Inr (map (\<lambda>(t, i). c t i) tis)"
  using assms
  by (induction els tis rule: list_all2_induct) (auto simp: construct_def and_then_def)

lemma getTracks_bad_status:
  "status \<noteq> 200 \<Longrightarrow> getTracks cls trackCls status data = Inl LavalinkException"
  by (simp add: getTracks_def)

lemma getTracks_no_matches:
  "py_get data ''loadType'' = Inr (Some (JStr ''NO_MATCHES'')) \<Longrightarrow>
   getTracks cls trackCls 200 data = Inr NoResult"
  by (simp add: getTracks_def and_then_def)

lemma getTracks_load_failed:
  "py_get data ''loadType'' = Inr (Some (JStr ''LOAD_FAILED'')) \<Longrightarrow>
   getTracks cls trackCls 200 data = Inl LoadTrackError"
  by (simp add: getTracks_def and_then_def)

lemma getTracks_track_loaded:
  "py_get data ''loadType'' = Inr (Some (JStr ''TRACK_LOADED'')) \<Longrightarrow>
   subscript data ''tracks'' = Inr (JList (el # rest)) \<Longrightarrow>
   subscript el ''track'' = Inr t \<Longrightarrow> subscript el ''info'' = Inr i \<Longrightarrow>
   getTracks cls trackCls 200 data = Inr (Single (cls t (Info i)))"
  by (simp add: getTracks_def and_then_def construct_def)

lemma getTracks_search_result:
  "py_get data ''loadType'' = Inr (Some (JStr ''SEARCH_RESULT'')) \<Longrightarrow>
   subscript data ''tracks'' = Inr (JList els) \<Longrightarrow>
   list_all2 (\<lambda>el (t, i). subscript el ''track'' = Inr t \<and> subscript el ''info'' = Inr i)
     els tis \<Longrightarrow>
   getTracks cls trackCls 200 data = Inr (Several (map (\<lambda>(t, i). cls t (Info i)) tis))"
  by (simp add: getTracks_def and_then_def comprehension_construct)

lemma getTracks_playlist_loaded:
  "py_get data ''loadType'' = Inr (Some (JStr ''PLAYLIST_LOADED'')) \<Longrightarrow>
   subscript data ''playlistInfo'' = Inr playlistInfo \<Longrightarrow>
   subscript playlistInfo ''name'' = Inr name \<Longrightarrow>
   subscript data ''tracks'' = Inr (JList els) \<Longrightarrow>
   list_all2 (\<lambda>el (t, i). subscript el ''track'' = Inr t \<and> subscript el ''info'' = Inr i)
     els tis \<Longrightarrow>
   getTracks cls trackCls 200 data
     = Inr (Single (cls name (Tracks (map (\<lambda>(t, i). trackCls t i) tis))))"
  by (simp add: getTracks_def and_then_def comprehension_construct)

lemma getTracks_unknown:
  "py_get data ''loadType'' = Inr lt \<Longrightarrow>
   lt \<notin> {Some (JStr ''LOAD_FAILED''), Some (JStr ''NO_MATCHES''), Some (JStr ''TRACK_LOADED''),
          Some (JStr ''SEARCH_RESULT''), Some (JStr ''PLAYLIST_LOADED'')} \<Longrightarrow>
   getTracks cls trackCls 200 data = Inr NoResult"
  by (simp add: getTracks_def and_then_def)

text \<open>
  C8. What \<open>getTracks\<close> returns for a response. A status other than 200 raises
  \<open>LavalinkException\<close>, whatever the body holds. With status 200: \<open>NO_MATCHES\<close> returns
  \<open>None\<close>; \<open>LOAD_FAILED\<close> raises \<open>LoadTrackError\<close>; \<open>TRACK_LOADED\<close> returns one object,
  built from the first element of \<open>tracks\<close>; \<open>SEARCH_RESULT\<close> returns the list of the
  objects built from the elements of \<open>tracks\<close>, in their order; \<open>PLAYLIST_LOADED\<close> returns
  one object built from the playlist's name and the list of tracks built from the elements
  of \<open>tracks\<close>, in their order. The two exceptions differ. The elements of \<open>tracks\<close> are
  taken to hold the keys \<open>track\<close> and \<open>info\<close>, and a loaded track to come with at least
  one element.
\<close>

theorem C8_getTracks_outcomes:
  "(status \<noteq> 200 \<longrightarrow> getTracks cls trackCls status data = Inl LavalinkException)
   \<and> (py_get data ''loadType'' = Inr (Some (JStr ''NO_MATCHES'')) \<longrightarrow>
        getTracks cls trackCls 200 data = Inr NoResult)
   \<and> (py_get data ''loadType'' = Inr (Some (JStr ''LOAD_FAILED'')) \<longrightarrow>
        getTracks cls trackCls 200 data = Inl LoadTrackError)
   \<and> (py_get data ''loadType'' = Inr (Some (JStr ''TRACK_LOADED''))
        \<and> subscript data ''tracks'' = Inr (JList (el # rest))
        \<and> subscript el ''track'' = Inr t \<and> subscript el ''info'' = Inr i \<longrightarrow>
        getTracks cls trackCls 200 data = Inr (Single (cls t (Info i))))
   \<and> (py_get data ''loadType'' = Inr (Some (JStr ''SEARCH_RESULT''))
        \<and> subscript data ''tracks'' = Inr (JList els)
        \<and> list_all2 (\<lambda>el (t, i). subscript el ''track'' = Inr t \<and> subscript el ''info'' = Inr i)
             els tis \<longrightarrow>
        getTracks cls trackCls 200 data = Inr (Several (map (\<lambda>(t, i). cls t (Info i)) tis)))
   \<and> (py_get data ''loadType'' = Inr (Some (JStr ''PLAYLIST_LOADED''))
        \<and> subscript data ''playlistInfo'' = Inr playlistInfo
        \<and> subscript playlistInfo ''name'' = Inr name
        \<and> subscript data ''tracks'' = Inr (JList els)
        \<and> list_all2 (\<lambda>el (t, i). subscript el ''track'' = Inr t \<and> subscript el ''info'' = Inr i)
             els tis \<longrightarrow>
        getTracks cls trackCls 200 data
          = Inr (Single (cls name (Tracks (map (\<lambda>(t, i). trackCls t i) tis)))))
   \<and> LavalinkException \<noteq> LoadTrackError"
  by (intro conjI impI)
    (simp_all add: getTracks_bad_status getTracks_no_matches getTracks_load_failed
      getTracks_track_loaded getTracks_search_result getTracks_playlist_loaded)

text \<open>
  The example bodies: a search with two results keeps their order, a loaded track gives
  one object, a playlist gives the named collection, and status 404 raises.
\<close>

theorem C8_getTracks_outcomes_witness:
  "getTracks Resource TrackOf 404 search_body = Inl LavalinkException
   \<and> getTracks Resource TrackOf 200 search_body
       = Inr (Several [Resource (JStr ''QAAB'') (Info (JObj [(''title'', JStr ''second'')])),
                       Resource (JStr ''QAAA'') (Info (JObj [(''title'', JStr ''first'')]))])
   \<and> getTracks Resource TrackOf 200 track_body
       = Inr (Single (Resource (JStr ''QAAA'') (Info (JObj [(''title'', JStr ''first'')]))))
   \<and> getTracks Resource TrackOf 200 playlist_body
       = Inr (Single (Resource (JStr ''mix'')
              (Tracks [TrackOf (JStr ''QAAB'') (JObj [(''title'', JStr ''second'')]),
                       TrackOf (JStr ''QAAA'') (JObj [(''title'', JStr ''first'')])])))"
proof -
  note outcomes = C8_getTracks_outcomes[where cls = Resource and trackCls = TrackOf]
  have status: "getTracks Resource TrackOf 404 search_body = Inl LavalinkException"
    using outcomes[where status = 404 and data = search_body] by simp
  have search: "getTracks Resource TrackOf 200 search_body
       = Inr (Several [Resource (JStr ''QAAB'') (Info (JObj [(''title'', JStr ''second'')])),
                       Resource (JStr ''QAAA'') (Info (JObj [(''title'', JStr ''first'')]))])"
    using outcomes[where data = search_body
        and els = "[entry ''QAAB'' ''second'', entry ''QAAA'' ''first'']"
        and tis = "[(JStr ''QAAB'', JObj [(''title'', JStr ''second'')]),
                    (JStr ''QAAA'', JObj [(''title'', JStr ''first'')])]"]
    by (simp add: search_body_def entry_def dict_get_def)
  have loaded: "getTracks Resource TrackOf 200 track_body
       = Inr (Single (Resource (JStr ''QAAA'') (Info (JObj [(''title'', JStr ''first'')]))))"
    using outcomes[where data = track_body and el = "entry ''QAAA'' ''first''" and rest = "[]"
        and t = "JStr ''QAAA''" and i = "JObj [(''title'', JStr ''first'')]"]
    by (simp add: track_body_def entry_def dict_get_def)
  have playlist: "getTracks Resource TrackOf 200 playlist_body
       = Inr (Single (Resource (JStr ''mix'')
              (Tracks [TrackOf (JStr ''QAAB'') (JObj [(''title'', JStr ''second'')]),
                       TrackOf (JStr ''QAAA'') (JObj [(''title'', JStr ''first'')])])))"
    using outcomes[where data = playlist_body
        and playlistInfo = "JObj [(''name'', JStr ''mix''), (''selectedTrack'', JInt 0)]"
        and name = "JStr ''mix''"
        and els = "[entry ''QAAB'' ''second'', entry ''QAAA'' ''first'']"
        and tis = "[(JStr ''QAAB'', JObj [(''title'', JStr ''second'')]),
                    (JStr ''QAAA'', JObj [(''title'', JStr ''first'')])]"]
    by (simp add: playlist_body_def entry_def dict_get_def)
  from status search loaded playlist show ?thesis by simp
qed

text \<open>
  C10. With status 200 and a \<open>loadType\<close> that is none of the five known tags (or no
  \<open>loadType\<close> at all), \<open>getTracks\<close> returns \<open>None\<close>, the very value it returns for any
  \<open>NO_MATCHES\<close> response.
\<close>

theorem C10_unknown_loadType_returns_None:
  assumes "py_get data ''loadType'' = Inr loadType"
    and "loadType \<notin> {Some (JStr ''LOAD_FAILED''), Some (JStr ''NO_MATCHES''),
           Some (JStr ''TRACK_LOADED''), Some (JStr ''SEARCH_RESULT''),
           Some (JStr ''PLAYLIST_LOADED'')}"
  shows "getTracks cls trackCls 200 data = Inr NoResult
       \<and> (\<forall>body. py_get body ''loadType'' = Inr (Some (JStr ''NO_MATCHES'')) \<longrightarrow>
            getTracks cls trackCls 200 body = getTracks cls trackCls 200 data)"
  using assms by (simp add: getTracks_unknown getTracks_no_matches)

theorem C10_unknown_loadType_returns_None_witness:
  "getTracks Resource TrackOf 200 unknown_body = Inr NoResult
   \<and> getTracks Resource TrackOf 200 (JObj [(''loadType'', JStr ''NO_MATCHES''), (''tracks'', JList [])])
       = getTracks Resource TrackOf 200 unknown_body"
proof -
  have tag: "py_get unknown_body ''loadType'' = Inr (Some (JStr ''EMPTY''))"
    by (simp add: unknown_body_def dict_get_def)
  have unknown: "Some (JStr ''EMPTY'') \<notin> {Some (JStr ''LOAD_FAILED''), Some (JStr ''NO_MATCHES''),
           Some (JStr ''TRACK_LOADED''), Some (JStr ''SEARCH_RESULT''),
           Some (JStr ''PLAYLIST_LOADED'')}"
    by simp
  have no_matches: "py_get (JObj [(''loadType'', JStr ''NO_MATCHES''), (''tracks'', JList [])])
      ''loadType'' = Inr (Some (JStr ''NO_MATCHES''))"
    by (simp add: dict_get_def)
  from C10_unknown_loadType_returns_None[OF tag unknown, of Resource TrackOf] no_matches
  show ?thesis by blast
qed

end
